theory Spec2Isabelle
  imports Main "HOL-Library.Sublist" "HOL-Library.AList"
begin

text \<open>
  A model of the customer-service chatbot: the session state and turn processing of
  chatbot.py, the DELETE handler of main.py that reads its result, and the document
  loading and index building of build_knowledge_base.py. The language model, the
  retriever, the document loaders, the text splitter and the vector database are
  third-party services; each enters as an argument that says what the service returns
  or which exception it raises. What the conversation library does with the arguments
  the bot passes to it (the check of the memory keys when a chain is constructed, the
  saving of an exchange after a call) is defined from those arguments. Functions keep
  their names, without the leading underscore of the private methods. Calls to the logger are left out of the chatbot;
  the builder returns the warnings and errors it logs.
\<close>

section \<open>Configuration (config.py)\<close>

text \<open>
  The fields of \<^verbatim>\<open>Settings\<close> that the chatbot and the knowledge-base builder read.
  \<open>default_settings\<close> holds the defaults written in config.py; an environment file may
  override each of them, so every definition below takes the settings as data.
\<close>

record settings =
  company_name :: string
  support_email :: string
  business_hours :: string
  vector_store_path :: string
  knowledge_base_path :: string

definition default_settings :: settings where
  "default_settings =
     \<lparr>company_name = ''Your Company'',
      support_email = ''support@yourcompany.com'',
      business_hours = ''Monday-Friday, 9 AM - 5 PM EST'',
      vector_store_path = ''./data/vectorstore'',
      knowledge_base_path = ''./data/knowledge_base''\<rparr>"

section \<open>Shared data\<close>

text \<open>
  An exception value carries its text. A LangChain \<^verbatim>\<open>Document\<close> has a page content and
  a metadata dict; the dict is an association list whose \<open>AList.update\<close> is Python's
  item assignment (an existing key keeps its place, a new key goes to the end).
\<close>

datatype exn = Exception string

record document =
  page_content :: string
  metadata :: "(string \<times> string) list"

section \<open>The chatbot (chatbot.py)\<close>

subsection \<open>Objects of the conversation library\<close>

text \<open>
  The messages kept by a \<^verbatim>\<open>ConversationBufferMemory\<close>. \<^verbatim>\<open>get_conversation_history\<close>
  tests for \<^verbatim>\<open>HumanMessage\<close> and \<^verbatim>\<open>AIMessage\<close>; \<open>OtherMessage\<close> stands for every other
  message class of the library (system, tool, function messages).
\<close>

datatype message = HumanMessage string | AIMessage string | OtherMessage string

record memory =
  memory_key :: string
  return_messages :: bool
  output_key :: string
  chat_memory :: "message list"

text \<open>The memory object that \<^verbatim>\<open>_get_or_create_memory\<close> constructs.\<close>

definition new_memory :: memory where
  "new_memory =
     \<lparr>memory_key = ''chat_history'', return_messages = True,
      output_key = ''answer'', chat_memory = []\<rparr>"

text \<open>\<^verbatim>\<open>memory.clear()\<close> empties the message list of the buffer.\<close>

definition memory_clear :: "memory \<Rightarrow> memory" where
  "memory_clear m = m\<lparr>chat_memory := []\<rparr>"

text \<open>
  Modelled from the spec: the library call \<^verbatim>\<open>chat_memory.add_message\<close>, by which the
  session memory manager's \<^verbatim>\<open>append_turn\<close> appends one message at the end of the
  transcript.
\<close>

definition add_message :: "memory \<Rightarrow> message \<Rightarrow> memory" where
  "add_message m msg = m\<lparr>chat_memory := chat_memory m @ [msg]\<rparr>"

text \<open>
  The two chain classes the bot builds. A chain object keeps a reference to the memory
  object it was built with. That object is the one stored under the session id in
  \<^verbatim>\<open>self.memories\<close>, and entries of \<^verbatim>\<open>self.memories\<close> are never deleted or rebound
  (the only assignment is guarded by \<^verbatim>\<open>not in\<close>), so the reference is represented by
  the session id.
\<close>

datatype chain_kind = ConversationalRetrievalChain | ConversationChain

record chain =
  kind :: chain_kind
  memory_ref :: string

text \<open>
  The result dict of a retrieval chain call: \<^verbatim>\<open>result["answer"]\<close> and
  \<^verbatim>\<open>result.get("source_documents", [])\<close>, the latter absent when the key is missing.
\<close>

record chain_result =
  answer :: string
  source_documents :: "document list option"

text \<open>One entry of the \<^verbatim>\<open>source_info\<close> list: the dict with keys content and metadata.\<close>

record source_dict =
  content :: string
  source_metadata :: "(string \<times> string) list"

text \<open>
  What the external services do during one call of \<^verbatim>\<open>chat\<close>: whether importing or
  constructing a chain of a given class fails for a reason of the environment (a missing
  module, a refused key), and what the language model (with the retriever, for a
  retrieval chain) answers to a question after a given transcript, or which exception
  it raises. The checks the library runs on the arguments the bot itself passes do not
  belong here: they are defined below, from the arguments.
\<close>

record collaborators =
  environment_error :: "chain_kind \<Rightarrow> exn option"
  retrieval_generate :: "message list \<Rightarrow> string \<Rightarrow> exn + chain_result"
  predict_generate :: "message list \<Rightarrow> string \<Rightarrow> exn + string"

text \<open>The Chroma handle held in \<^verbatim>\<open>self.vector_store\<close>: where it persists and what it holds.\<close>

record vectorstore =
  persist_directory :: string
  collection :: "document list"

subsection \<open>The bot state\<close>

record bot =
  bot_settings :: settings
  vector_store :: "vectorstore option"
  conversation_chains :: "string \<rightharpoonup> chain"
  memories :: "string \<rightharpoonup> memory"

text \<open>
  \<^verbatim>\<open>__init__\<close>: both dicts start empty; \<open>loaded\<close> is what \<^verbatim>\<open>_load_vector_store\<close>
  returned (\<open>None\<close> when loading raised).
\<close>

definition init_bot :: "settings \<Rightarrow> vectorstore option \<Rightarrow> bot" where
  "init_bot s loaded =
     \<lparr>bot_settings = s, vector_store = loaded,
      conversation_chains = Map.empty, memories = Map.empty\<rparr>"

text \<open>
  Modelled from the spec: the truth value of \<^verbatim>\<open>self.vector_store\<close> in the tests
  \<^verbatim>\<open>if self.vector_store:\<close>. Retrieval takes place when a vector index is configured
  and non-empty: \<^verbatim>\<open>None\<close> is false, and a Chroma handle, whose length is the number of
  documents of its collection, is false when the collection is empty.
\<close>

definition truthy :: "vectorstore option \<Rightarrow> bool" where
  "truthy vs = (case vs of None \<Rightarrow> False | Some v \<Rightarrow> collection v \<noteq> [])"

subsection \<open>Session memory and chains\<close>

text \<open>
  \<^verbatim>\<open>_get_or_create_memory\<close>: a new memory is stored under an id that has none; the memory
  stored under the id is returned.
\<close>

definition get_or_create_memory :: "bot \<Rightarrow> string \<Rightarrow> memory \<times> bot" where
  "get_or_create_memory b session_id =
     (case memories b session_id of
        None \<Rightarrow> (new_memory, b\<lparr>memories := (memories b)(session_id \<mapsto> new_memory)\<rparr>)
      | Some m \<Rightarrow> (m, b))"

text \<open>
  The check the library runs when a \<^verbatim>\<open>ConversationChain\<close> is constructed. The chain is
  built with the default prompt, whose variables are \<^verbatim>\<open>history\<close> and \<^verbatim>\<open>input\<close>, and
  with the input key \<^verbatim>\<open>input\<close>; the keys the memory provides (its memory key) together
  with the input key have to be exactly the variables of the prompt, otherwise the
  constructor raises.
\<close>

definition validate_prompt_input_variables :: "memory \<Rightarrow> exn option" where
  "validate_prompt_input_variables m =
     (let memory_keys = [memory_key m]; input_key = ''input'';
          prompt_variables = [''history'', ''input'']
      in if input_key \<in> set memory_keys
         then Some (Exception ''The input key was also found in the memory keys'')
         else if set (memory_keys @ [input_key]) \<noteq> set prompt_variables
         then Some (Exception ''Got unexpected prompt input variables'')
         else None)"

text \<open>
  Constructing the chain of class \<open>k\<close> on a memory: \<^verbatim>\<open>ConversationalRetrievalChain.from_llm\<close>
  accepts the memory as it is; \<^verbatim>\<open>ConversationChain(llm=..., memory=memory)\<close> runs the
  check above.
\<close>

definition construct_chain :: "collaborators \<Rightarrow> chain_kind \<Rightarrow> memory \<Rightarrow> exn option" where
  "construct_chain env k m =
     (case environment_error env k of
        Some e \<Rightarrow> Some e
      | None \<Rightarrow>
          (case k of
             ConversationalRetrievalChain \<Rightarrow> None
           | ConversationChain \<Rightarrow> validate_prompt_input_variables m))"

text \<open>
  \<^verbatim>\<open>_get_or_create_chain\<close>. The memory is created before the chain is constructed, so a
  constructor that raises leaves the new memory registered; the chain is stored only
  after the constructor has returned.
\<close>

definition get_or_create_chain ::
  "collaborators \<Rightarrow> bot \<Rightarrow> string \<Rightarrow> (exn \<times> bot) + (chain \<times> bot)" where
  "get_or_create_chain env b session_id =
     (case conversation_chains b session_id of
        Some c \<Rightarrow> Inr (c, b)
      | None \<Rightarrow>
          (let (m, b1) = get_or_create_memory b session_id;
               k = (if truthy (vector_store b1) then ConversationalRetrievalChain
                    else ConversationChain)
           in case construct_chain env k m of
                Some e \<Rightarrow> Inl (e, b1)
              | None \<Rightarrow>
                  (let c = \<lparr>kind = k, memory_ref = session_id\<rparr>
                   in Inr (c, b1\<lparr>conversation_chains :=
                                    (conversation_chains b1)(session_id \<mapsto> c)\<rparr>))))"

text \<open>
  The memory object a chain refers to, as the memories dict holds it. Every chain of a
  state the bot can reach has its memory there (\<open>bot_inv\<close> below); for a chain without
  one the model takes a new memory.
\<close>

definition chain_memory :: "bot \<Rightarrow> chain \<Rightarrow> memory" where
  "chain_memory b c = (case memories b (memory_ref c) of Some m \<Rightarrow> m | None \<Rightarrow> new_memory)"

text \<open>
  What the library's chain does with its memory after generation has returned: it saves
  the exchange with \<^verbatim>\<open>memory.save_context(inputs, outputs)\<close>. The memory was built without
  an input key, so the input is the one key of \<open>inputs\<close> that is neither a key of the
  memory nor \<^verbatim>\<open>stop\<close>, and the call raises when there is not exactly one such key. The
  output is read under the output key of the memory. Only then are the two messages
  appended; a call that raises appends nothing.
\<close>

definition get_prompt_input_key :: "(string \<times> string) list \<Rightarrow> string list \<Rightarrow> exn + string" where
  "get_prompt_input_key inputs memory_variables =
     (let prompt_input_keys =
            filter (\<lambda>k. k \<notin> set (memory_variables @ [''stop''])) (map fst inputs)
      in case prompt_input_keys of
           [k] \<Rightarrow> Inr k
         | _ \<Rightarrow> Inl (Exception ''One input key expected''))"

definition save_context ::
  "memory \<Rightarrow> (string \<times> string) list \<Rightarrow> (string \<times> string) list \<Rightarrow> exn + memory" where
  "save_context m inputs outputs =
     (case get_prompt_input_key inputs [memory_key m] of
        Inl e \<Rightarrow> Inl e
      | Inr prompt_input_key \<Rightarrow>
          (case map_of inputs prompt_input_key of
             None \<Rightarrow> Inl (Exception ''KeyError'')
           | Some input_str \<Rightarrow>
               (case map_of outputs (output_key m) of
                  None \<Rightarrow> Inl (Exception ''KeyError'')
                | Some output_str \<Rightarrow>
                    Inr (add_message (add_message m (HumanMessage input_str))
                           (AIMessage output_str)))))"

text \<open>
  Calling the retrieval chain with an input dict: the question is read under the key
  \<^verbatim>\<open>question\<close>, the retriever and the language model produce the result, and the
  exchange is saved with all the keys the caller passed. An exception leaves the bot as
  it was.
\<close>

definition call_chain ::
  "collaborators \<Rightarrow> bot \<Rightarrow> chain \<Rightarrow> (string \<times> string) list \<Rightarrow>
     (exn \<times> bot) + (chain_result \<times> bot)" where
  "call_chain env b c inputs =
     (let m = chain_memory b c
      in case map_of inputs ''question'' of
           None \<Rightarrow> Inl (Exception ''Missing some input keys'', b)
         | Some question \<Rightarrow>
             (case retrieval_generate env (chat_memory m) question of
                Inl e \<Rightarrow> Inl (e, b)
              | Inr r \<Rightarrow>
                  (case save_context m inputs [(''answer'', answer r)] of
                     Inl e \<Rightarrow> Inl (e, b)
                   | Inr m1 \<Rightarrow>
                       Inr (r, b\<lparr>memories := (memories b)(memory_ref c \<mapsto> m1)\<rparr>))))"

text \<open>
  \<^verbatim>\<open>chain.predict(input=message)\<close> on the plain conversation chain: the one input key is
  \<^verbatim>\<open>input\<close> and the one output key of that chain is \<^verbatim>\<open>response\<close>.
\<close>

definition chain_predict ::
  "collaborators \<Rightarrow> bot \<Rightarrow> chain \<Rightarrow> string \<Rightarrow> (exn \<times> bot) + (string \<times> bot)" where
  "chain_predict env b c input =
     (let m = chain_memory b c
      in case predict_generate env (chat_memory m) input of
           Inl e \<Rightarrow> Inl (e, b)
         | Inr r \<Rightarrow>
             (case save_context m [(''input'', input)] [(''response'', r)] of
                Inl e \<Rightarrow> Inl (e, b)
              | Inr m1 \<Rightarrow>
                  Inr (r, b\<lparr>memories := (memories b)(memory_ref c \<mapsto> m1)\<rparr>)))"

subsection \<open>Processing a turn\<close>

definition get_error_response :: "bot \<Rightarrow> string" where
  "get_error_response b =
     ''I apologize, but I'm experiencing technical difficulties. '' @
     ''Please try again in a moment, or contact our support team at '' @
     support_email (bot_settings b) @ '' for immediate assistance.''"

text \<open>The list comprehension over the source documents, \<open>None\<close> when there are none.\<close>

definition source_info_of :: "document list \<Rightarrow> source_dict list option" where
  "source_info_of sources =
     (if sources \<noteq> []
      then Some (map (\<lambda>doc. \<lparr>content = page_content doc, source_metadata = metadata doc\<rparr>)
                  sources)
      else None)"

text \<open>
  The body of the \<^verbatim>\<open>try\<close> block of \<^verbatim>\<open>chat\<close>: \<open>Inl\<close> is an exception escaping the block,
  with the bot as the block left it. The chain call, which the source hands to a worker
  thread and awaits, is made in place.
\<close>

definition chat_try ::
  "collaborators \<Rightarrow> bot \<Rightarrow> string \<Rightarrow> string \<Rightarrow>
     (exn \<times> bot) + ((string \<times> source_dict list option) \<times> bot)" where
  "chat_try env b message session_id =
     (case get_or_create_chain env b session_id of
        Inl (e, b1) \<Rightarrow> Inl (e, b1)
      | Inr (c, b1) \<Rightarrow>
          (if truthy (vector_store b1)
           then (case call_chain env b1 c
                        [(''question'', message),
                         (''company_name'', company_name (bot_settings b1)),
                         (''business_hours'', business_hours (bot_settings b1)),
                         (''support_email'', support_email (bot_settings b1))] of
                   Inl (e, b2) \<Rightarrow> Inl (e, b2)
                 | Inr (result, b2) \<Rightarrow>
                     (let response = answer result;
                          sources = (case source_documents result of
                                       None \<Rightarrow> [] | Some ds \<Rightarrow> ds)
                      in Inr ((response, source_info_of sources), b2)))
           else (case chain_predict env b1 c message of
                   Inl (e, b2) \<Rightarrow> Inl (e, b2)
                 | Inr (result, b2) \<Rightarrow> Inr ((result, None), b2))))"

text \<open>\<^verbatim>\<open>chat\<close>: the \<^verbatim>\<open>except Exception\<close> handler turns every exception into the fallback.\<close>

definition chat ::
  "collaborators \<Rightarrow> bot \<Rightarrow> string \<Rightarrow> string \<Rightarrow> (string \<times> source_dict list option) \<times> bot" where
  "chat env b message session_id =
     (case chat_try env b message session_id of
        Inl (e, b1) \<Rightarrow> ((get_error_response b1, None), b1)
      | Inr (r, b1) \<Rightarrow> (r, b1))"

subsection \<open>History and clearing\<close>

text \<open>The loop of \<^verbatim>\<open>get_conversation_history\<close> over the messages, appending to \<open>history\<close>.\<close>

fun history_loop ::
  "message list \<Rightarrow> (string \<times> string) list list \<Rightarrow> (string \<times> string) list list" where
  "history_loop [] history = history"
| "history_loop (HumanMessage c # msgs) history =
     history_loop msgs (history @ [[(''role'', ''user''), (''content'', c)]])"
| "history_loop (AIMessage c # msgs) history =
     history_loop msgs (history @ [[(''role'', ''assistant''), (''content'', c)]])"
| "history_loop (OtherMessage c # msgs) history = history_loop msgs history"

definition get_conversation_history :: "bot \<Rightarrow> string \<Rightarrow> (string \<times> string) list list" where
  "get_conversation_history b session_id =
     (case memories b session_id of
        None \<Rightarrow> []
      | Some m \<Rightarrow> history_loop (chat_memory m) [])"

text \<open>
  \<^verbatim>\<open>clear_conversation\<close>. Neither guarded statement raises (emptying a list, deleting a
  key that was just tested), so the handler that returns \<^verbatim>\<open>False\<close> is never entered and
  the function returns \<^verbatim>\<open>True\<close> on every path.
\<close>

definition clear_conversation :: "bot \<Rightarrow> string \<Rightarrow> bool \<times> bot" where
  "clear_conversation b session_id =
     (let b1 = (case memories b session_id of
                  Some m \<Rightarrow> b\<lparr>memories := (memories b)(session_id \<mapsto> memory_clear m)\<rparr>
                | None \<Rightarrow> b);
          b2 = (if session_id \<in> dom (conversation_chains b1)
                then b1\<lparr>conversation_chains := (conversation_chains b1)(session_id := None)\<rparr>
                else b1)
      in (True, b2))"

text \<open>
  The DELETE handler of main.py reads the flag: \<^verbatim>\<open>True\<close> is answered with the success
  message, \<^verbatim>\<open>False\<close> with status 404 and the detail "Session not found".
\<close>

datatype http_reply = Cleared string | NotFound

definition clear_conversation_endpoint :: "bot \<Rightarrow> string \<Rightarrow> http_reply \<times> bot" where
  "clear_conversation_endpoint b session_id =
     (let (success, b1) = clear_conversation b session_id
      in if success then (Cleared session_id, b1) else (NotFound, b1))"

section \<open>The knowledge-base builder (build_knowledge_base.py)\<close>

subsection \<open>Files, loaders and the log\<close>

text \<open>
  A path yielded by \<^verbatim>\<open>rglob\<close>, as the loop reads it: \<^verbatim>\<open>str(file_path)\<close>, the suffix
  pathlib reports, \<^verbatim>\<open>is_file()\<close>, and the text stored in the file. A file system maps
  each existing directory to the sequence \<^verbatim>\<open>rglob('*')\<close> yields below it; a path
  outside the domain does not exist.
\<close>

record path_entry =
  path_str :: string
  path_suffix :: string
  is_file :: bool
  file_text :: string

type_synonym filesystem = "string \<rightharpoonup> path_entry list"

datatype loader = TextLoader | PyPDFLoader | CSVLoader | UnstructuredMarkdownLoader

definition loaders :: "(string \<times> loader) list" where
  "loaders =
     [(''.txt'', TextLoader), (''.pdf'', PyPDFLoader), (''.csv'', CSVLoader),
      (''.md'', UnstructuredMarkdownLoader)]"

text \<open>
  The warnings and errors the builder hands to the logger, in the order of the calls
  (informational records are left out).
\<close>

datatype log_record =
    DirectoryDoesNotExist string
  | ErrorLoading string exn
  | NoDocumentsFound

text \<open>
  The library calls of the builder: constructing a loader on a file and loading it, the
  text splitter built in \<^verbatim>\<open>__init__\<close> with chunk size 1000 and overlap 200, and
  \<^verbatim>\<open>Chroma.from_documents\<close> with its persist directory.
\<close>

record services =
  load :: "loader \<Rightarrow> path_entry \<Rightarrow> exn + document list"
  split_documents :: "document list \<Rightarrow> document list"
  from_documents :: "document list \<Rightarrow> string \<Rightarrow> exn + vectorstore"

text \<open>\<^verbatim>\<open>str.lower\<close> on the ASCII letters.\<close>

definition char_lower :: "char \<Rightarrow> char" where
  "char_lower c =
     (case map_of (zip ''ABCDEFGHIJKLMNOPQRSTUVWXYZ'' ''abcdefghijklmnopqrstuvwxyz'') c of
        Some l \<Rightarrow> l
      | None \<Rightarrow> c)"

definition lower :: "string \<Rightarrow> string" where
  "lower s = map char_lower s"

subsection \<open>Loading documents\<close>

definition add_metadata :: "path_entry \<Rightarrow> string \<Rightarrow> document \<Rightarrow> document" where
  "add_metadata file_path extension doc =
     doc\<lparr>metadata := AList.update ''file_type'' extension
                        (AList.update ''source'' (path_str file_path) (metadata doc))\<rparr>"

text \<open>
  The \<^verbatim>\<open>for\<close> loop of \<^verbatim>\<open>load_documents\<close> over the paths, with the list \<open>documents\<close>
  and the log it has written so far.
\<close>

fun load_loop ::
  "services \<Rightarrow> path_entry list \<Rightarrow> document list \<times> log_record list \<Rightarrow>
     document list \<times> log_record list" where
  "load_loop env [] (documents, log) = (documents, log)"
| "load_loop env (file_path # rest) (documents, log) =
     (if is_file file_path
      then (let extension = lower (path_suffix file_path)
            in case map_of loaders extension of
                 Some loader_class \<Rightarrow>
                   (case load env loader_class file_path of
                      Inr docs \<Rightarrow>
                        load_loop env rest
                          (documents @ map (add_metadata file_path extension) docs, log)
                    | Inl e \<Rightarrow>
                        load_loop env rest
                          (documents, log @ [ErrorLoading (path_str file_path) e]))
               | None \<Rightarrow> load_loop env rest (documents, log))
      else load_loop env rest (documents, log))"

definition load_documents ::
  "services \<Rightarrow> filesystem \<Rightarrow> string \<Rightarrow> document list \<times> log_record list" where
  "load_documents env fs directory =
     (case fs directory of
        None \<Rightarrow> ([], [DirectoryDoesNotExist directory])
      | Some paths \<Rightarrow> load_loop env paths ([], []))"

subsection \<open>The sample corpus\<close>

text \<open>The texts of the dict in \<^verbatim>\<open>_create_sample_documents\<close>, as the source writes them.\<close>

definition company_info_txt :: string where
  "company_info_txt =
     ''\<newline>'' @
     ''Company Name: Your Company\<newline>'' @
     ''Founded: 2020\<newline>'' @
     ''Mission: To provide excellent customer service and innovative solutions.\<newline>'' @
     ''            \<newline>'' @
     ''Business Hours: Monday-Friday, 9 AM - 5 PM EST\<newline>'' @
     ''Support Email: support@yourcompany.com\<newline>'' @
     ''Phone: 1-800-555-0123\<newline>'' @
     ''            \<newline>'' @
     ''We are committed to helping our customers succeed.\<newline>''"

definition shipping_policy_txt :: string where
  "shipping_policy_txt =
     ''\<newline>'' @
     ''Shipping Policy\<newline>'' @
     ''            \<newline>'' @
     ''Standard Shipping: 5-7 business days\<newline>'' @
     ''Express Shipping: 2-3 business days\<newline>'' @
     ''Overnight Shipping: Next business day\<newline>'' @
     ''            \<newline>'' @
     ''Free shipping on orders over $50.\<newline>'' @
     ''            \<newline>'' @
     ''We ship to all 50 states and internationally to select countries.\<newline>'' @
     ''Tracking information is provided once your order ships.\<newline>''"

definition return_policy_txt :: string where
  "return_policy_txt =
     ''\<newline>'' @
     ''Return Policy\<newline>'' @
     ''            \<newline>'' @
     ''We offer a 30-day return policy on most items.\<newline>'' @
     ''            \<newline>'' @
     ''To be eligible for a return:\<newline>'' @
     ''- Item must be unused and in original packaging\<newline>'' @
     ''- Must have receipt or proof of purchase\<newline>'' @
     ''- Return must be initiated within 30 days of purchase\<newline>'' @
     ''            \<newline>'' @
     ''Refunds are processed within 5-7 business days.\<newline>'' @
     ''            \<newline>'' @
     ''Some items are non-returnable:\<newline>'' @
     ''- Perishable goods\<newline>'' @
     ''- Custom or personalized items\<newline>'' @
     ''- Digital products\<newline>''"

definition faq_txt :: string where
  "faq_txt =
     ''\<newline>'' @
     ''Frequently Asked Questions\<newline>'' @
     ''            \<newline>'' @
     ''Q: How do I track my order?\<newline>'' @
     ''A: You can track your order using the tracking number sent to your email.\<newline>'' @
     ''            \<newline>'' @
     ''Q: What payment methods do you accept?\<newline>'' @
     ''A: We accept Visa, MasterCard, American Express, PayPal, and Apple Pay.\<newline>'' @
     ''            \<newline>'' @
     ''Q: Do you offer international shipping?\<newline>'' @
     ''A: Yes, we ship to select countries. Additional fees may apply.\<newline>'' @
     ''            \<newline>'' @
     ''Q: How do I change or cancel my order?\<newline>'' @
     ''A: Contact customer support within 24 hours of placing your order.\<newline>'' @
     ''            \<newline>'' @
     ''Q: What is your warranty policy?\<newline>'' @
     ''A: Most products come with a 1-year manufacturer warranty.\<newline>''"

definition sample_content :: "(string \<times> string) list" where
  "sample_content =
     [(''company_info.txt'', company_info_txt),
      (''shipping_policy.txt'', shipping_policy_txt),
      (''return_policy.txt'', return_policy_txt),
      (''faq.txt'', faq_txt)]"

text \<open>\<^verbatim>\<open>str.strip\<close>: the whitespace characters of ASCII are removed at both ends.\<close>

definition is_space :: "char \<Rightarrow> bool" where
  "is_space c = (let n = (of_char c :: nat) in (9 \<le> n \<and> n \<le> 13) \<or> (28 \<le> n \<and> n \<le> 32))"

definition strip :: "string \<Rightarrow> string" where
  "strip s = rev (dropWhile is_space (rev (dropWhile is_space s)))"

text \<open>
  \<^verbatim>\<open>Path(d).mkdir(parents=True, exist_ok=True)\<close>: an existing directory is left as it
  is, a missing one is created empty.
\<close>

definition mkdir :: "filesystem \<Rightarrow> string \<Rightarrow> filesystem" where
  "mkdir fs d = (case fs d of None \<Rightarrow> fs(d \<mapsto> []) | Some paths \<Rightarrow> fs)"

text \<open>
  Paths as pathlib reads and prints them on POSIX: a string is split at the slashes,
  empty components and \<^verbatim>\<open>.\<close> are dropped, the root is \<^verbatim>\<open>/\<close> for a leading slash
  (\<^verbatim>\<open>//\<close> for exactly two), and the path prints as the root followed by the components
  joined with slashes, or as \<^verbatim>\<open>.\<close> when there is neither.
\<close>

fun split_slash :: "string \<Rightarrow> string list" where
  "split_slash [] = [[]]"
| "split_slash (c # cs) =
     (if c = CHR ''/'' then [] # split_slash cs
      else (case split_slash cs of [] \<Rightarrow> [[c]] | p # ps \<Rightarrow> (c # p) # ps))"

definition path_parts :: "string \<Rightarrow> string list" where
  "path_parts s = filter (\<lambda>p. p \<noteq> [] \<and> p \<noteq> ''.'') (split_slash s)"

definition path_root :: "string \<Rightarrow> string" where
  "path_root s =
     (if take 1 s \<noteq> ''/'' then []
      else if take 1 (drop 1 s) \<noteq> ''/'' \<or> take 1 (drop 2 s) = ''/'' then ''/''
      else ''//'')"

fun join_slash :: "string list \<Rightarrow> string" where
  "join_slash [] = []"
| "join_slash [p] = p"
| "join_slash (p # q # ps) = p @ ''/'' @ join_slash (q # ps)"

definition path_string :: "string \<Rightarrow> string list \<Rightarrow> string" where
  "path_string root parts =
     (if parts = [] then (if root = [] then ''.'' else root) else root @ join_slash parts)"

text \<open>
  \<^verbatim>\<open>str(Path(directory) / filename)\<close>: a file name with a root replaces the directory,
  any other is appended to its components.
\<close>

definition joinpath :: "string \<Rightarrow> string \<Rightarrow> string" where
  "joinpath directory filename =
     (if path_root filename \<noteq> []
      then path_string (path_root filename) (path_parts filename)
      else path_string (path_root directory) (path_parts directory @ path_parts filename))"

text \<open>
  \<^verbatim>\<open>file_path.write_text(text)\<close> for a file directly in \<open>directory\<close>: it raises when the
  directory is missing or when the path names a directory, replaces the text of an
  existing file, and otherwise creates the file, which the next listing yields (the
  model puts it last). The suffix of the new entry is passed in.
\<close>

fun replace_text :: "string \<Rightarrow> string \<Rightarrow> path_entry list \<Rightarrow> path_entry list" where
  "replace_text p text [] = []"
| "replace_text p text (q # qs) =
     (if path_str q = p then q\<lparr>file_text := text\<rparr> # replace_text p text qs
      else q # replace_text p text qs)"

definition write_text ::
  "filesystem \<Rightarrow> string \<Rightarrow> string \<Rightarrow> string \<Rightarrow> string \<Rightarrow> exn + filesystem" where
  "write_text fs directory filename ext text =
     (case fs directory of
        None \<Rightarrow> Inl (Exception ''FileNotFoundError'')
      | Some paths \<Rightarrow>
          (let p = joinpath directory filename
           in case find (\<lambda>q. path_str q = p) paths of
                None \<Rightarrow>
                  Inr (fs(directory \<mapsto> paths @
                         [\<lparr>path_str = p, path_suffix = ext, is_file = True,
                           file_text = text\<rparr>]))
              | Some q \<Rightarrow>
                  if is_file q then Inr (fs(directory \<mapsto> replace_text p text paths))
                  else Inl (Exception ''IsADirectoryError'')))"

text \<open>
  The loop of \<^verbatim>\<open>_create_sample_documents\<close> over the items of the dict. An exception
  leaves the files written before it in place. Every sample name ends in \<^verbatim>\<open>.txt\<close>,
  which is the suffix of the path written.
\<close>

fun write_samples ::
  "filesystem \<Rightarrow> string \<Rightarrow> (string \<times> string) list \<Rightarrow> (exn \<times> filesystem) + filesystem" where
  "write_samples fs directory [] = Inr fs"
| "write_samples fs directory ((filename, sample_text) # rest) =
     (case write_text fs directory filename ''.txt'' (strip sample_text) of
        Inl e \<Rightarrow> Inl (e, fs)
      | Inr fs1 \<Rightarrow> write_samples fs1 directory rest)"

definition create_sample_documents ::
  "filesystem \<Rightarrow> string \<Rightarrow> (exn \<times> filesystem) + filesystem" where
  "create_sample_documents fs directory = write_samples fs directory sample_content"

subsection \<open>Building the vector store\<close>

text \<open>\<^verbatim>\<open>documents_dir or default\<close>: \<^verbatim>\<open>None\<close> and the empty string select the default.\<close>

definition py_or :: "string option \<Rightarrow> string \<Rightarrow> string" where
  "py_or given dflt = (case given of None \<Rightarrow> dflt | Some s \<Rightarrow> if s = [] then dflt else s)"

text \<open>Splitting the documents and creating the store from the chunks.\<close>

definition index_documents ::
  "services \<Rightarrow> document list \<Rightarrow> string \<Rightarrow> filesystem \<Rightarrow> log_record list \<Rightarrow>
     (exn \<times> filesystem \<times> log_record list) + (vectorstore \<times> filesystem \<times> log_record list)" where
  "index_documents env documents out_dir fs log =
     (let splits = split_documents env documents
      in case from_documents env splits out_dir of
           Inl e \<Rightarrow> Inl (e, fs, log)
         | Inr vs \<Rightarrow> Inr (vs, fs, log))"

definition build_vector_store ::
  "services \<Rightarrow> settings \<Rightarrow> filesystem \<Rightarrow> string option \<Rightarrow> string option \<Rightarrow>
     (exn \<times> filesystem \<times> log_record list) + (vectorstore \<times> filesystem \<times> log_record list)" where
  "build_vector_store env s fs documents_dir output_dir =
     (let docs_dir = py_or documents_dir (knowledge_base_path s);
          out_dir = py_or output_dir (vector_store_path s);
          fs1 = mkdir (mkdir fs docs_dir) out_dir;
          (documents, log1) = load_documents env fs1 docs_dir
      in if documents = []
         then (case create_sample_documents fs1 docs_dir of
                 Inl (e, fs2) \<Rightarrow> Inl (e, fs2, log1 @ [NoDocumentsFound])
               | Inr fs2 \<Rightarrow>
                   (let (documents2, log2) = load_documents env fs2 docs_dir
                    in index_documents env documents2 out_dir fs2
                         (log1 @ [NoDocumentsFound] @ log2)))
         else index_documents env documents out_dir fs1 log1)"

section \<open>Notions of the specification\<close>

text \<open>
  A turn of the specification's data model: a role and a content. The message class that
  stands for a role, and the history entry \<^verbatim>\<open>get_history\<close> is to show for a turn.
\<close>

datatype role = User | Assistant

definition message_of_turn :: "role \<times> string \<Rightarrow> message" where
  "message_of_turn t = (case t of (User, c) \<Rightarrow> HumanMessage c | (Assistant, c) \<Rightarrow> AIMessage c)"

definition entry_of_turn :: "role \<times> string \<Rightarrow> (string \<times> string) list" where
  "entry_of_turn t =
     (case t of
        (User, c) \<Rightarrow> [(''role'', ''user''), (''content'', c)]
      | (Assistant, c) \<Rightarrow> [(''role'', ''assistant''), (''content'', c)])"

text \<open>
  Modelled from the spec: \<^verbatim>\<open>append_turn(session_id, role, content)\<close> of the session
  memory manager, which the repository leaves to the conversation library. It appends
  one message to the transcript of the session that \<^verbatim>\<open>get_or_create\<close> returns.
\<close>

definition append_turn :: "bot \<Rightarrow> string \<Rightarrow> role \<times> string \<Rightarrow> bot" where
  "append_turn b session_id t =
     (let (m, b1) = get_or_create_memory b session_id
      in b1\<lparr>memories := (memories b1)(session_id \<mapsto> add_message m (message_of_turn t))\<rparr>)"

fun append_turns :: "bot \<Rightarrow> string \<Rightarrow> (role \<times> string) list \<Rightarrow> bot" where
  "append_turns b session_id [] = b"
| "append_turns b session_id (t # ts) = append_turns (append_turn b session_id t) session_id ts"

text \<open>
  The extensions the loading contract names, and the paths it is about: regular files
  whose suffix, in lower case, is one of them.
\<close>

definition supported_extensions :: "string list" where
  "supported_extensions = [''.txt'', ''.pdf'', ''.csv'', ''.md'']"

definition supported :: "path_entry \<Rightarrow> bool" where
  "supported p = (is_file p \<and> lower (path_suffix p) \<in> set supported_extensions)"

text \<open>
  What one path contributes to a batch that fails soft: the documents of a supported file
  that loads, with their provenance, and nothing for any other path.
\<close>

definition file_documents :: "services \<Rightarrow> path_entry \<Rightarrow> document list" where
  "file_documents env p =
     (if is_file p
      then (case map_of loaders (lower (path_suffix p)) of
              None \<Rightarrow> []
            | Some loader_class \<Rightarrow>
                (case load env loader_class p of
                   Inl e \<Rightarrow> []
                 | Inr docs \<Rightarrow> map (add_metadata p (lower (path_suffix p))) docs))
      else [])"

text \<open>The error records one path adds to the log: one for a supported file that fails.\<close>

definition file_errors :: "services \<Rightarrow> path_entry \<Rightarrow> log_record list" where
  "file_errors env p =
     (if is_file p
      then (case map_of loaders (lower (path_suffix p)) of
              None \<Rightarrow> []
            | Some loader_class \<Rightarrow>
                (case load env loader_class p of
                   Inl e \<Rightarrow> [ErrorLoading (path_str p) e]
                 | Inr docs \<Rightarrow> []))
      else [])"

text \<open>The document a text file is expected to load as, before provenance is added.\<close>

definition text_document :: "path_entry \<Rightarrow> document" where
  "text_document p = \<lparr>page_content = file_text p, metadata = [(''source'', path_str p)]\<rparr>"

text \<open>
  The states the bot can reach keep every chain with the memory of its own session and
  with the class that the vector store selects, and every memory with the keys
  \<^verbatim>\<open>_get_or_create_memory\<close> gave it.
\<close>

definition bot_inv :: "bot \<Rightarrow> bool" where
  "bot_inv b =
     ((\<forall>sid c. conversation_chains b sid = Some c \<longrightarrow>
         memory_ref c = sid \<and> memories b sid \<noteq> None
         \<and> kind c = (if truthy (vector_store b) then ConversationalRetrievalChain
                      else ConversationChain))
      \<and> (\<forall>sid m. memories b sid = Some m \<longrightarrow>
           memory_key m = ''chat_history'' \<and> output_key m = ''answer''))"

text \<open>A file name of one component, which joining appends to the directory as it is.\<close>

definition simple_name :: "string \<Rightarrow> bool" where
  "simple_name f = (path_root f = [] \<and> path_parts f = [f])"

section \<open>Example runs\<close>

text \<open>
  Services in which nothing of the environment fails: one whose language model answers
  every question with one reply, and one whose language model times out.
\<close>

definition model_answers :: "string \<Rightarrow> collaborators" where
  "model_answers reply =
     \<lparr>environment_error = (\<lambda>k. None),
      retrieval_generate = (\<lambda>h q. Inr \<lparr>answer = reply, source_documents = None\<rparr>),
      predict_generate = (\<lambda>h q. Inr reply)\<rparr>"

definition model_times_out :: collaborators where
  "model_times_out =
     \<lparr>environment_error = (\<lambda>k. None),
      retrieval_generate = (\<lambda>h q. Inl (Exception ''timeout'')),
      predict_generate = (\<lambda>h q. Inl (Exception ''timeout''))\<rparr>"

text \<open>A loaded vector store that holds one chunk.\<close>

definition stocked_store :: vectorstore where
  "stocked_store =
     \<lparr>persist_directory = ''./data/vectorstore'',
      collection = [\<lparr>page_content = ''Open 9 to 5'',
                     metadata = [(''source'', ''kb/hours.txt'')]\<rparr>]\<rparr>"

text \<open>
  A bot in which the library has appended a user message and a reply to the memory of
  session s1.
\<close>

definition two_message_bot :: bot where
  "two_message_bot =
     append_turns (init_bot default_settings None) ''s1''
       [(User, ''Hi''), (Assistant, ''Hello!'')]"

text \<open>
  Builder services whose text loader yields one document per file and whose other
  loaders fail, with a splitter that keeps each document whole and a store that holds
  the chunks it is given.
\<close>

definition text_services :: services where
  "text_services =
     \<lparr>load = (\<lambda>loader_class p.
               if loader_class = TextLoader then Inr [text_document p]
               else Inl (Exception ''cannot parse'')),
      split_documents = (\<lambda>documents. documents),
      from_documents =
        (\<lambda>splits out_dir. Inr \<lparr>persist_directory = out_dir, collection = splits\<rparr>)\<rparr>"

text \<open>A knowledge-base directory with two text files, a PDF, an image and a subdirectory.\<close>

definition hours_txt :: path_entry where
  "hours_txt =
     \<lparr>path_str = ''kb/hours.txt'', path_suffix = ''.txt'', is_file = True,
      file_text = ''Open 9 to 5''\<rparr>"

definition broken_pdf :: path_entry where
  "broken_pdf =
     \<lparr>path_str = ''kb/broken.pdf'', path_suffix = ''.pdf'', is_file = True, file_text = []\<rparr>"

definition notes_upper :: path_entry where
  "notes_upper =
     \<lparr>path_str = ''kb/NOTES.TXT'', path_suffix = ''.TXT'', is_file = True,
      file_text = ''Ask us''\<rparr>"

definition logo_png :: path_entry where
  "logo_png =
     \<lparr>path_str = ''kb/logo.png'', path_suffix = ''.png'', is_file = True, file_text = []\<rparr>"

definition archive_dir :: path_entry where
  "archive_dir =
     \<lparr>path_str = ''kb/archive'', path_suffix = [], is_file = False, file_text = []\<rparr>"

definition example_fs :: filesystem where
  "example_fs = [''kb'' \<mapsto> [hours_txt, broken_pdf, notes_upper, logo_png, archive_dir]]"

section \<open>The transcript\<close>

lemma truthy_simps [simp]:
  "truthy None = False"
  "truthy (Some v) = (collection v \<noteq> [])"
  by (simp_all add: truthy_def)

lemma history_loop_acc: "history_loop msgs h = h @ history_loop msgs []"
proof (induction msgs arbitrary: h)
  case Nil
  show ?case by simp
next
  case (Cons m msgs)
  show ?case
  proof (cases m)
    case (HumanMessage c)
    then show ?thesis
      using Cons.IH [of "h @ [[(''role'', ''user''), (''content'', c)]]"]
            Cons.IH [of "[[(''role'', ''user''), (''content'', c)]]"]
      by simp
  next
    case (AIMessage c)
    then show ?thesis
      using Cons.IH [of "h @ [[(''role'', ''assistant''), (''content'', c)]]"]
            Cons.IH [of "[[(''role'', ''assistant''), (''content'', c)]]"]
      by simp
  next
    case (OtherMessage c)
    then show ?thesis using Cons.IH [of h] by simp
  qed
qed

lemma history_loop_append:
  "history_loop (xs @ ys) [] = history_loop xs [] @ history_loop ys []"
proof (induction xs)
  case Nil
  show ?case by simp
next
  case (Cons m xs)
  show ?case
  proof (cases m)
    case (HumanMessage c)
    then show ?thesis
      using Cons history_loop_acc [of xs "[[(''role'', ''user''), (''content'', c)]]"]
        history_loop_acc [of "xs @ ys" "[[(''role'', ''user''), (''content'', c)]]"]
      by simp
  next
    case (AIMessage c)
    then show ?thesis
      using Cons history_loop_acc [of xs "[[(''role'', ''assistant''), (''content'', c)]]"]
        history_loop_acc [of "xs @ ys" "[[(''role'', ''assistant''), (''content'', c)]]"]
      by simp
  next
    case (OtherMessage c)
    then show ?thesis using Cons by simp
  qed
qed

lemma history_loop_message_of_turn:
  "history_loop [message_of_turn t] [] = [entry_of_turn t]"
  by (cases t; cases "fst t") (simp_all add: message_of_turn_def entry_of_turn_def)

lemma history_get_or_create_memory:
  "get_conversation_history (snd (get_or_create_memory b sid)) s = get_conversation_history b s"
  by (simp add: get_or_create_memory_def get_conversation_history_def new_memory_def
      split: option.splits)

lemma settings_get_or_create_memory:
  "bot_settings (snd (get_or_create_memory b sid)) = bot_settings b"
  by (simp add: get_or_create_memory_def split: option.splits)

lemma vector_store_get_or_create_memory:
  "vector_store (snd (get_or_create_memory b sid)) = vector_store b"
  by (simp add: get_or_create_memory_def split: option.splits)

text \<open>\<^verbatim>\<open>_get_or_create_memory\<close> is idempotent: a second call finds the memory of the first.\<close>

lemma get_or_create_memory_idem:
  "get_or_create_memory (snd (get_or_create_memory b sid)) sid
     = (fst (get_or_create_memory b sid), snd (get_or_create_memory b sid))"
  by (simp add: get_or_create_memory_def split: option.splits)

section \<open>Turns that fail\<close>

lemma get_or_create_chain_history:
  "get_or_create_chain env b sid = Inl (e, b1) \<or> get_or_create_chain env b sid = Inr (c, b1)
   \<Longrightarrow> get_conversation_history b1 s = get_conversation_history b s"
  using history_get_or_create_memory [of b sid s]
  by (auto simp: get_or_create_chain_def Let_def get_conversation_history_def
      split: option.splits prod.splits)

lemma get_or_create_chain_settings:
  "get_or_create_chain env b sid = Inl (e, b1) \<or> get_or_create_chain env b sid = Inr (c, b1)
   \<Longrightarrow> bot_settings b1 = bot_settings b"
  using settings_get_or_create_memory [of b sid]
  by (auto simp: get_or_create_chain_def Let_def
      split: option.splits prod.splits)

text \<open>A chain call that raises leaves the bot as it was.\<close>

lemma call_chain_failure: "call_chain env b c inputs = Inl (e, b1) \<Longrightarrow> b1 = b"
  by (auto simp: call_chain_def Let_def split: option.splits sum.splits)

lemma chain_predict_failure: "chain_predict env b c input = Inl (e, b1) \<Longrightarrow> b1 = b"
  by (auto simp: chain_predict_def Let_def split: option.splits sum.splits)

lemma chat_try_failure:
  assumes "chat_try env b message sid = Inl (e, b1)"
  shows "\<exists>e0 c. get_or_create_chain env b sid = Inl (e0, b1)
           \<or> get_or_create_chain env b sid = Inr (c, b1)"
proof (cases "get_or_create_chain env b sid")
  case (Inl f)
  then show ?thesis using assms by (cases f) (auto simp: chat_try_def)
next
  case (Inr s)
  obtain c b0 where s: "s = (c, b0)" by (cases s)
  have "b1 = b0"
    using assms call_chain_failure [of env b0 c _ e b1] chain_predict_failure [of env b0 c _ e b1]
    by (auto simp: chat_try_def Inr s Let_def split: if_splits sum.splits prod.splits)
  then show ?thesis using Inr s by simp
qed

lemma chat_try_failure_history:
  assumes "chat_try env b message sid = Inl (e, b1)"
  shows "get_conversation_history b1 s = get_conversation_history b s"
  using chat_try_failure [OF assms] get_or_create_chain_history [of env b sid _ b1 _ s]
  by blast

lemma chat_try_failure_settings:
  assumes "chat_try env b message sid = Inl (e, b1)"
  shows "bot_settings b1 = bot_settings b"
  using chat_try_failure [OF assms] get_or_create_chain_settings [of env b sid _ b1]
  by blast

lemma sublist_error_response: "sublist (support_email (bot_settings b)) (get_error_response b)"
  unfolding get_error_response_def sublist_def
  by (metis append.assoc)

text \<open>
  On a new bot with a loaded store the retrieval chain is constructed and called; with a
  language model that times out the call raises.
\<close>

lemma stocked_bot_fails:
  "isl (chat_try model_times_out (init_bot default_settings (Some stocked_store))
          ''What are your hours?'' ''s1'')"
  by (simp add: chat_try_def get_or_create_chain_def get_or_create_memory_def init_bot_def
      model_times_out_def stocked_store_def construct_chain_def call_chain_def
      chain_memory_def Let_def)

text \<open>
  Claim C2. Whenever a step of processing a turn raises, that is, whenever an exception
  escapes the \<^verbatim>\<open>try\<close> block of \<^verbatim>\<open>chat\<close> (constructing the chain raised, or the chain call
  raised), \<^verbatim>\<open>chat\<close> returns the fixed fallback text with no sources. The text contains
  the configured support email address, and \<^verbatim>\<open>get_conversation_history\<close> gives for every
  session what it gave before the turn. \<^verbatim>\<open>chat\<close> returns a value on every input, so it
  does not raise.
\<close>

theorem chat_failure_returns_fallback:
  assumes "isl (chat_try env b message session_id)"
  shows "fst (chat env b message session_id) = (get_error_response b, None)
       \<and> sublist (support_email (bot_settings b)) (fst (fst (chat env b message session_id)))
       \<and> (\<forall>s. get_conversation_history (snd (chat env b message session_id)) s
              = get_conversation_history b s)"
proof -
  from assms obtain e b1 where f: "chat_try env b message session_id = Inl (e, b1)"
    by (cases "chat_try env b message session_id") auto
  have s: "bot_settings b1 = bot_settings b"
    using f by (rule chat_try_failure_settings)
  have r: "get_error_response b1 = get_error_response b"
    by (simp add: get_error_response_def s)
  have c: "chat env b message session_id = ((get_error_response b, None), b1)"
    by (simp add: chat_def f r)
  have h: "\<And>s. get_conversation_history b1 s = get_conversation_history b s"
    using f by (rule chat_try_failure_history)
  show ?thesis
    using sublist_error_response [of b] by (simp add: c h)
qed

theorem chat_failure_returns_fallback_witness:
  "isl (chat_try model_times_out (init_bot default_settings (Some stocked_store))
          ''What are your hours?'' ''s1'')
   \<and> fst (chat model_times_out (init_bot default_settings (Some stocked_store))
          ''What are your hours?'' ''s1'') =
       (''I apologize, but I'm experiencing technical difficulties. '' @
        ''Please try again in a moment, or contact our support team at '' @
        ''support@yourcompany.com for immediate assistance.'', None)
   \<and> get_conversation_history
         (snd (chat model_times_out (init_bot default_settings (Some stocked_store))
                 ''What are your hours?'' ''s1'')) ''s1''
       = get_conversation_history (init_bot default_settings (Some stocked_store)) ''s1''"
  using chat_failure_returns_fallback [OF stocked_bot_fails] stocked_bot_fails
  by (simp add: get_error_response_def init_bot_def default_settings_def)
section \<open>Turns without a vector store\<close>

text \<open>
  The memory of \<^verbatim>\<open>_get_or_create_memory\<close> provides the key \<^verbatim>\<open>chat_history\<close>, which is not
  a variable of the default prompt: the constructor of the plain conversation chain
  rejects it.
\<close>

lemma new_memory_rejected:
  "validate_prompt_input_variables new_memory
     = Some (Exception ''Got unexpected prompt input variables'')"
proof -
  have "''chat_history'' \<in> set ([''chat_history''] @ [''input''])"
    and "''chat_history'' \<notin> set [''history'', ''input'']"
    by simp_all
  then have "set ([''chat_history''] @ [''input'']) \<noteq> set [''history'', ''input'']"
    by metis
  then show ?thesis
    by (simp add: validate_prompt_input_variables_def new_memory_def Let_def)
qed

lemma new_memory_empty: "chat_memory new_memory = []"
  by (simp add: new_memory_def)

lemma construct_conversation_chain_raises:
  "construct_chain env ConversationChain new_memory \<noteq> None"
  by (simp add: construct_chain_def new_memory_rejected split: option.splits)

text \<open>
  So the first turn of a session on a bot without a usable store fails whatever the
  services do: the memory is registered, the constructor raises, no chain is stored and
  the language model is not called.
\<close>

lemma first_turn_without_store:
  assumes "\<not> truthy (vector_store b)"
    and "memories b sid = None" and "conversation_chains b sid = None"
  shows "\<exists>e. chat_try env b message sid
           = Inl (e, b\<lparr>memories := (memories b)(sid \<mapsto> new_memory)\<rparr>)"
proof -
  obtain e where e: "construct_chain env ConversationChain new_memory = Some e"
    using construct_conversation_chain_raises [of env] by auto
  have "get_or_create_chain env b sid
      = Inl (e, b\<lparr>memories := (memories b)(sid \<mapsto> new_memory)\<rparr>)"
    using assms e by (simp add: get_or_create_chain_def get_or_create_memory_def Let_def)
  then show ?thesis by (simp add: chat_try_def)
qed

lemma chat_try_no_store:
  assumes "\<not> truthy (vector_store b)"
  shows "chat_try env b message sid =
     (case get_or_create_chain env b sid of
        Inl (e, b1) \<Rightarrow> Inl (e, b1)
      | Inr (c, b1) \<Rightarrow>
          (case chain_predict env b1 c message of
             Inl (e, b2) \<Rightarrow> Inl (e, b2)
           | Inr (result, b2) \<Rightarrow> Inr ((result, None), b2)))"
proof -
  have "\<And>c b1. get_or_create_chain env b sid = Inr (c, b1) \<Longrightarrow> \<not> truthy (vector_store b1)"
    using assms
    by (auto simp: get_or_create_chain_def get_or_create_memory_def Let_def
        split: option.splits prod.splits)
  then show ?thesis
    by (auto simp: chat_try_def split: sum.splits prod.splits)
qed

text \<open>Without a usable store a turn never returns source attributions.\<close>

lemma chat_without_store_no_sources:
  assumes "\<not> truthy (vector_store b)"
  shows "snd (fst (chat env b message sid)) = None"
  by (auto simp: chat_def chat_try_no_store [OF assms] split: sum.splits prod.splits)

text \<open>
  Claim C3. The claim asks that a turn succeeds with a non-grounded response when there
  is no usable vector store. On a new bot without a store, with services in which
  nothing fails and a language model that answers, the first turn returns the error
  fallback, stores no chain and leaves the history empty: the constructor of the plain
  conversation chain raises on the memory the bot passes to it. The source attributions
  are absent, as the claim says.
\<close>

theorem chat_without_store_returns_fallback:
  "\<not> truthy (vector_store (init_bot default_settings None))
   \<and> environment_error (model_answers ''We are open 9 to 5.'') ConversationChain = None
   \<and> predict_generate (model_answers ''We are open 9 to 5.'') [] ''What are your business hours?''
       = Inr ''We are open 9 to 5.''
   \<and> fst (chat (model_answers ''We are open 9 to 5.'') (init_bot default_settings None)
          ''What are your business hours?'' ''s1'') =
       (''I apologize, but I'm experiencing technical difficulties. '' @
        ''Please try again in a moment, or contact our support team at '' @
        ''support@yourcompany.com for immediate assistance.'', None)
   \<and> conversation_chains
         (snd (chat (model_answers ''We are open 9 to 5.'') (init_bot default_settings None)
                 ''What are your business hours?'' ''s1'')) ''s1'' = None
   \<and> get_conversation_history
         (snd (chat (model_answers ''We are open 9 to 5.'') (init_bot default_settings None)
                 ''What are your business hours?'' ''s1'')) ''s1'' = []"
  by (simp add: chat_def chat_try_def get_or_create_chain_def get_or_create_memory_def
      init_bot_def model_answers_def construct_chain_def new_memory_rejected
      get_error_response_def default_settings_def get_conversation_history_def
      new_memory_empty Let_def)

section \<open>The first turn of a session\<close>



section \<open>History and clearing\<close>

lemma history_append_turn:
  "get_conversation_history (append_turn b sid t) sid
     = get_conversation_history b sid @ [entry_of_turn t]"
proof (cases "memories b sid")
  case None
  then show ?thesis
    using history_loop_message_of_turn [of t]
    by (simp add: append_turn_def get_or_create_memory_def get_conversation_history_def
        add_message_def new_memory_def)
next
  case (Some m)
  then show ?thesis
    using history_loop_append [of "chat_memory m" "[message_of_turn t]"]
      history_loop_message_of_turn [of t]
    by (simp add: append_turn_def get_or_create_memory_def get_conversation_history_def
        add_message_def)
qed

lemma history_append_turns:
  "get_conversation_history (append_turns b sid ts) sid
     = get_conversation_history b sid @ map entry_of_turn ts"
  by (induction ts arbitrary: b) (simp_all add: history_append_turn)

text \<open>
  Claim C4. Appending turns to a session extends its history by one entry per turn, in
  the order of appending, each entry with the role and content of its turn. For a
  session whose history was empty, the history after N turns has exactly those N
  entries.
\<close>

theorem history_after_turns:
  "get_conversation_history (append_turns b session_id ts) session_id
     = get_conversation_history b session_id @ map entry_of_turn ts
   \<and> (get_conversation_history b session_id = [] \<longrightarrow>
        get_conversation_history (append_turns b session_id ts) session_id = map entry_of_turn ts
        \<and> length (get_conversation_history (append_turns b session_id ts) session_id) = length ts)"
  by (simp add: history_append_turns)

theorem history_after_turns_witness:
  "get_conversation_history (init_bot default_settings None) ''s1'' = []
   \<and> get_conversation_history
       (append_turns (init_bot default_settings None) ''s1''
          [(User, ''Hi''), (Assistant, ''Hello!''), (User, ''Bye'')]) ''s1''
     = [[(''role'', ''user''), (''content'', ''Hi'')],
        [(''role'', ''assistant''), (''content'', ''Hello!'')],
        [(''role'', ''user''), (''content'', ''Bye'')]]"
  using history_after_turns [of "init_bot default_settings None" "''s1''"
      "[(User, ''Hi''), (Assistant, ''Hello!''), (User, ''Bye'')]"]
  by (simp add: init_bot_def get_conversation_history_def entry_of_turn_def)

lemma two_message_bot_history:
  "get_conversation_history two_message_bot ''s1'' =
     [[(''role'', ''user''), (''content'', ''Hi'')],
      [(''role'', ''assistant''), (''content'', ''Hello!'')]]"
proof -
  have "get_conversation_history (init_bot default_settings None) ''s1'' = []"
    by (simp add: get_conversation_history_def init_bot_def)
  then show ?thesis
    by (simp add: two_message_bot_def history_append_turns entry_of_turn_def
        del: append_turns.simps)
qed

text \<open>
  Claim C8. After \<^verbatim>\<open>clear_conversation\<close> on a session that has at least one entry in its
  history, \<^verbatim>\<open>get_conversation_history\<close> for that session returns the empty list.
\<close>

theorem clear_then_history_empty:
  assumes "get_conversation_history b session_id \<noteq> []"
  shows "get_conversation_history (snd (clear_conversation b session_id)) session_id = []"
  by (simp add: clear_conversation_def get_conversation_history_def memory_clear_def Let_def
      split: option.splits)

theorem clear_then_history_empty_witness:
  "get_conversation_history two_message_bot ''s1'' \<noteq> []
   \<and> get_conversation_history (snd (clear_conversation two_message_bot ''s1'')) ''s1'' = []"
  using clear_then_history_empty [of two_message_bot "''s1''"]
  by (simp add: two_message_bot_history)

text \<open>The flag of \<^verbatim>\<open>clear_conversation\<close> is \<^verbatim>\<open>True\<close> in every state and for every id.\<close>

lemma clear_conversation_returns_true: "fst (clear_conversation b sid) = True"
  by (simp add: clear_conversation_def Let_def)

lemma clear_conversation_endpoint_never_not_found:
  "fst (clear_conversation_endpoint b sid) = Cleared sid"
  by (simp add: clear_conversation_endpoint_def clear_conversation_def Let_def)

text \<open>
  Claim C1. The claim asks for \<^verbatim>\<open>False\<close> on an unknown session id. On a new bot, which
  has no memory and no chain for the id, \<^verbatim>\<open>clear_conversation\<close> returns \<^verbatim>\<open>True\<close>, and the
  DELETE handler answers with the success message instead of "Session not found".
\<close>

theorem clear_unknown_session_returns_true:
  "memories (init_bot default_settings None) ''no-such-session'' = None
   \<and> conversation_chains (init_bot default_settings None) ''no-such-session'' = None
   \<and> fst (clear_conversation (init_bot default_settings None) ''no-such-session'') = True
   \<and> fst (clear_conversation_endpoint (init_bot default_settings None) ''no-such-session'')
       = Cleared ''no-such-session''"
  by (simp add: init_bot_def clear_conversation_def clear_conversation_endpoint_def Let_def)

section \<open>Reachable states\<close>

lemma bot_inv_init: "bot_inv (init_bot s loaded)"
  by (simp add: bot_inv_def init_bot_def)

text \<open>
  The retrieval chain is called with four input keys. At most one of them is a key of
  the memory, so saving the exchange finds more than one input key and raises: the call
  never returns, whatever the language model answers.
\<close>

lemma four_keys_filter:
  "2 \<le> length (filter (\<lambda>k. k \<noteq> mk \<and> k \<noteq> ''stop'')
      [''question'', ''company_name'', ''business_hours'', ''support_email''])"
proof -
  have "mk \<noteq> ''question'' \<or> mk \<noteq> ''company_name''" by auto
  then show ?thesis
  proof
    assume a: "mk \<noteq> ''question''"
    have "mk \<noteq> ''company_name'' \<or> mk \<noteq> ''business_hours''" by auto
    then show ?thesis using a by auto
  next
    assume a: "mk \<noteq> ''company_name''"
    have "mk \<noteq> ''question'' \<or> mk \<noteq> ''business_hours''" by auto
    then show ?thesis using a by auto
  qed
qed

lemma not_singleton: "2 \<le> length ks \<Longrightarrow> (case ks of [k] \<Rightarrow> Inr k | _ \<Rightarrow> Inl e) = Inl e"
  by (cases ks; cases "tl ks") auto

lemma get_prompt_input_key_four:
  "get_prompt_input_key
     [(''question'', q), (''company_name'', n), (''business_hours'', h),
      (''support_email'', s)] [mk] = Inl (Exception ''One input key expected'')"
proof -
  have "map fst [(''question'', q), (''company_name'', n), (''business_hours'', h),
      (''support_email'', s)]
    = [''question'', ''company_name'', ''business_hours'', ''support_email'']"
    by simp
  moreover have "(\<lambda>k. k \<notin> set ([mk] @ [''stop''])) = (\<lambda>k. k \<noteq> mk \<and> k \<noteq> ''stop'')"
    by auto
  ultimately show ?thesis
    unfolding get_prompt_input_key_def Let_def
    using not_singleton [OF four_keys_filter [of mk]]
    by (simp only:)
qed

lemma save_context_four:
  "save_context m
     [(''question'', q), (''company_name'', n), (''business_hours'', h),
      (''support_email'', s)] outputs = Inl (Exception ''One input key expected'')"
  unfolding save_context_def
  by (simp only: get_prompt_input_key_four sum.case)

lemma call_chain_raises:
  "\<exists>e. call_chain env b c
          [(''question'', q), (''company_name'', n), (''business_hours'', h),
           (''support_email'', s)] = Inl (e, b)"
proof -
  have m: "map_of [(''question'', q), (''company_name'', n), (''business_hours'', h),
           (''support_email'', s)] ''question'' = Some q"
    by simp
  show ?thesis
  proof (cases "retrieval_generate env (chat_memory (chain_memory b c)) q")
    case (Inl e)
    then show ?thesis
      unfolding call_chain_def Let_def by (simp only: m option.case sum.case) blast
  next
    case (Inr r)
    then show ?thesis
      unfolding call_chain_def Let_def
      by (simp only: m option.case sum.case save_context_four) blast
  qed
qed

text \<open>
  The memory of a session reads the output under the key \<^verbatim>\<open>answer\<close>, and the plain
  conversation chain has the one output key \<^verbatim>\<open>response\<close>: its \<^verbatim>\<open>predict\<close> raises too.
\<close>

lemma get_prompt_input_key_input:
  assumes "mk \<noteq> ''input''"
  shows "get_prompt_input_key [(''input'', x)] [mk] = Inr ''input''"
  using assms by (simp add: get_prompt_input_key_def Let_def)

lemma save_context_response:
  assumes "memory_key m = ''chat_history''" and "output_key m = ''answer''"
  shows "save_context m [(''input'', x)] [(''response'', r)] = Inl (Exception ''KeyError'')"
proof -
  have k: "get_prompt_input_key [(''input'', x)] [memory_key m] = Inr ''input''"
    by (rule get_prompt_input_key_input) (simp add: assms(1))
  show ?thesis
    by (simp add: save_context_def k assms(2))
qed

lemma chain_predict_raises:
  assumes "memory_key (chain_memory b c) = ''chat_history''"
    and "output_key (chain_memory b c) = ''answer''"
  shows "\<exists>e. chain_predict env b c x = Inl (e, b)"
proof (cases "predict_generate env (chat_memory (chain_memory b c)) x")
  case (Inl e)
  then show ?thesis by (simp add: chain_predict_def Let_def)
next
  case (Inr r)
  then show ?thesis
    by (simp add: chain_predict_def Let_def save_context_response [OF assms])
qed

lemma bot_inv_chain_memory:
  assumes "bot_inv b"
  shows "memory_key (chain_memory b c) = ''chat_history''
       \<and> output_key (chain_memory b c) = ''answer''"
proof (cases "memories b (memory_ref c)")
  case None
  then show ?thesis by (simp add: chain_memory_def new_memory_def)
next
  case (Some m)
  then have "memory_key m = ''chat_history'' \<and> output_key m = ''answer''"
    using assms unfolding bot_inv_def by blast
  then show ?thesis by (simp add: chain_memory_def Some)
qed

lemma bot_inv_new_memory:
  assumes "bot_inv b" and "memories b sid = None"
  shows "bot_inv (b\<lparr>memories := (memories b)(sid \<mapsto> new_memory)\<rparr>)"
  using assms unfolding bot_inv_def by (auto simp: new_memory_def)

lemma bot_inv_get_or_create_memory:
  assumes "bot_inv b"
  shows "bot_inv (snd (get_or_create_memory b sid))"
proof (cases "memories b sid")
  case None
  then show ?thesis
    using bot_inv_new_memory [OF assms None] by (simp add: get_or_create_memory_def)
next
  case (Some m)
  then show ?thesis using assms by (simp add: get_or_create_memory_def)
qed

lemma memories_get_or_create_memory:
  "memories (snd (get_or_create_memory b sid)) sid \<noteq> None"
  by (simp add: get_or_create_memory_def split: option.splits)

lemma bot_inv_store_chain:
  assumes "bot_inv b" and "memories b sid \<noteq> None"
  shows "bot_inv (b\<lparr>conversation_chains := (conversation_chains b)(sid \<mapsto>
           \<lparr>kind = (if truthy (vector_store b) then ConversationalRetrievalChain
                     else ConversationChain), memory_ref = sid\<rparr>)\<rparr>)"
  using assms unfolding bot_inv_def by simp

lemma bot_inv_get_or_create_chain:
  assumes "bot_inv b"
    and "get_or_create_chain env b sid = Inl (e, b1) \<or> get_or_create_chain env b sid = Inr (c, b1)"
  shows "bot_inv b1"
proof (cases "conversation_chains b sid")
  case (Some c0)
  then show ?thesis using assms by (simp add: get_or_create_chain_def)
next
  case None
  obtain m b0 where m: "get_or_create_memory b sid = (m, b0)"
    by (cases "get_or_create_memory b sid")
  have i: "bot_inv b0"
    using bot_inv_get_or_create_memory [OF assms(1), of sid] by (simp add: m)
  have n: "memories b0 sid \<noteq> None"
    using memories_get_or_create_memory [of b sid] by (simp add: m)
  define k where "k = (if truthy (vector_store b0) then ConversationalRetrievalChain
                       else ConversationChain)"
  show ?thesis
  proof (cases "construct_chain env k m")
    case (Some e0)
    then have "get_or_create_chain env b sid = Inl (e0, b0)"
      by (simp add: get_or_create_chain_def None m Let_def k_def)
    then show ?thesis using assms(2) i by auto
  next
    case None2: None
    then have "get_or_create_chain env b sid
        = Inr (\<lparr>kind = k, memory_ref = sid\<rparr>,
               b0\<lparr>conversation_chains := (conversation_chains b0)(sid \<mapsto>
                     \<lparr>kind = k, memory_ref = sid\<rparr>)\<rparr>)"
      by (simp add: get_or_create_chain_def None m Let_def k_def)
    then show ?thesis
      using assms(2) bot_inv_store_chain [OF i n] by (auto simp: k_def)
  qed
qed

text \<open>No turn succeeds: in every state the bot can reach, \<^verbatim>\<open>chat\<close> returns the fallback.\<close>

lemma chat_try_raises:
  assumes "bot_inv b"
  shows "isl (chat_try env b message sid)"
proof (cases "get_or_create_chain env b sid")
  case (Inl f)
  then show ?thesis by (cases f) (simp add: chat_try_def)
next
  case (Inr s)
  obtain c b1 where s: "s = (c, b1)" by (cases s)
  have i: "bot_inv b1"
    using bot_inv_get_or_create_chain [OF assms, of env sid _ b1 c] Inr s by simp
  obtain e1 where r: "call_chain env b1 c
      [(''question'', message), (''company_name'', company_name (bot_settings b1)),
       (''business_hours'', business_hours (bot_settings b1)),
       (''support_email'', support_email (bot_settings b1))] = Inl (e1, b1)"
    using call_chain_raises by blast
  obtain e2 where p: "chain_predict env b1 c message = Inl (e2, b1)"
    using chain_predict_raises [of b1 c env message] bot_inv_chain_memory [OF i, of c] by blast
  show ?thesis
    by (simp add: chat_try_def Inr s r p)
qed

lemma bot_inv_chat:
  assumes "bot_inv b"
  shows "bot_inv (snd (chat env b message sid))"
proof -
  obtain e b1 where f: "chat_try env b message sid = Inl (e, b1)"
    using chat_try_raises [OF assms, of env message sid]
    by (cases "chat_try env b message sid") auto
  have "bot_inv b1"
    using chat_try_failure [OF f] bot_inv_get_or_create_chain [OF assms, of env sid _ b1]
    by blast
  then show ?thesis by (simp add: chat_def f)
qed

lemma chat_never_succeeds:
  assumes "bot_inv b"
  shows "fst (chat env b message sid) = (get_error_response b, None)"
proof -
  obtain e b1 where f: "chat_try env b message sid = Inl (e, b1)"
    using chat_try_raises [OF assms, of env message sid]
    by (cases "chat_try env b message sid") auto
  show ?thesis
    using chat_try_failure_settings [OF f] by (simp add: chat_def f get_error_response_def)
qed

lemma bot_inv_clear_memory:
  assumes "bot_inv b" and "memories b sid = Some m"
  shows "bot_inv (b\<lparr>memories := (memories b)(sid \<mapsto> memory_clear m)\<rparr>)"
  using assms unfolding bot_inv_def by (auto simp: memory_clear_def)

lemma bot_inv_delete_chain:
  assumes "bot_inv b"
  shows "bot_inv (b\<lparr>conversation_chains := (conversation_chains b)(sid := None)\<rparr>)"
  using assms unfolding bot_inv_def by auto

lemma bot_inv_clear_conversation:
  assumes "bot_inv b"
  shows "bot_inv (snd (clear_conversation b sid))"
proof -
  define b1 where "b1 = (case memories b sid of
      Some m \<Rightarrow> b\<lparr>memories := (memories b)(sid \<mapsto> memory_clear m)\<rparr> | None \<Rightarrow> b)"
  have i: "bot_inv b1"
    using assms bot_inv_clear_memory [OF assms, of sid]
    by (cases "memories b sid") (simp_all add: b1_def)
  have "snd (clear_conversation b sid)
      = (if sid \<in> dom (conversation_chains b1)
         then b1\<lparr>conversation_chains := (conversation_chains b1)(sid := None)\<rparr> else b1)"
    by (simp add: clear_conversation_def Let_def b1_def)
  then show ?thesis
    using i bot_inv_delete_chain [OF i, of sid] by simp
qed
section \<open>Loading documents\<close>

lemma load_loop_single:
  "load_loop env [p] (documents, log)
     = (documents @ file_documents env p, log @ file_errors env p)"
  by (simp add: file_documents_def file_errors_def Let_def split: option.splits sum.splits)

lemma load_loop_Cons:
  "load_loop env (p # paths) acc = load_loop env paths (load_loop env [p] acc)"
  by (cases acc) (simp add: Let_def split: option.splits sum.splits)

lemma load_loop_eq:
  "load_loop env paths (documents, log)
     = (documents @ concat (map (file_documents env) paths),
        log @ concat (map (file_errors env) paths))"
proof (induction paths arbitrary: documents log)
  case Nil
  show ?case by simp
next
  case (Cons p paths)
  have "load_loop env (p # paths) (documents, log)
      = load_loop env paths (documents @ file_documents env p, log @ file_errors env p)"
    using load_loop_Cons [of env p paths "(documents, log)"]
    by (simp only: load_loop_single)
  then show ?case
    by (simp add: Cons.IH del: load_loop.simps)
qed

text \<open>
  The batch is the concatenation, in listing order, of what each path contributes, and
  the log holds one error record for each supported file that failed.
\<close>

lemma load_documents_eq:
  "fs directory = Some paths \<Longrightarrow>
   load_documents env fs directory
     = (concat (map (file_documents env) paths), concat (map (file_errors env) paths))"
  by (simp add: load_documents_def load_loop_eq del: load_loop.simps)

lemma map_of_loaders_None:
  "map_of loaders x = None \<longleftrightarrow> x \<notin> set supported_extensions"
  by (auto simp: loaders_def supported_extensions_def)

lemma file_documents_unsupported: "\<not> supported p \<Longrightarrow> file_documents env p = []"
  by (auto simp: file_documents_def supported_def map_of_loaders_None [symmetric]
      split: option.splits)

lemma file_errors_unsupported: "\<not> supported p \<Longrightarrow> file_errors env p = []"
  by (auto simp: file_errors_def supported_def map_of_loaders_None [symmetric]
      split: option.splits)

lemma concat_filter_supported:
  "concat (map (file_documents env) (filter supported paths))
     = concat (map (file_documents env) paths)"
  "concat (map (file_errors env) (filter supported paths))
     = concat (map (file_errors env) paths)"
  by (induction paths) (simp_all add: file_documents_unsupported file_errors_unsupported)

lemma example_fs_kb:
  "example_fs ''kb'' = Some ([hours_txt] @ broken_pdf # [notes_upper, logo_png, archive_dir])"
  by (simp add: example_fs_def)

lemma example_documents:
  "fst (load_documents text_services example_fs ''kb'') =
     [\<lparr>page_content = ''Open 9 to 5'',
       metadata = [(''source'', ''kb/hours.txt''), (''file_type'', ''.txt'')]\<rparr>,
      \<lparr>page_content = ''Ask us'',
       metadata = [(''source'', ''kb/NOTES.TXT''), (''file_type'', ''.txt'')]\<rparr>]"
  by (simp add: load_documents_def example_fs_def hours_txt_def broken_pdf_def notes_upper_def
      logo_png_def archive_dir_def text_services_def lower_def char_lower_def loaders_def
      add_metadata_def text_document_def Let_def)

text \<open>
  Claim C6. When the loader of one supported file of a directory raises, the documents
  returned are those of all the other paths of the listing, in order: the batch is the
  one the directory without the failing file gives. The error is logged with the path
  of the file.
\<close>

theorem load_documents_skips_failing_file:
  assumes "fs directory = Some (before @ bad # after)"
    and "is_file bad"
    and "map_of loaders (lower (path_suffix bad)) = Some loader_class"
    and "load env loader_class bad = Inl e"
  shows "fst (load_documents env fs directory)
           = concat (map (file_documents env) (before @ after))
       \<and> fst (load_documents env fs directory)
           = fst (load_documents env (fs(directory \<mapsto> before @ after)) directory)
       \<and> ErrorLoading (path_str bad) e \<in> set (snd (load_documents env fs directory))"
proof -
  have b: "file_documents env bad = []"
    using assms(2,3,4) by (simp add: file_documents_def)
  have g: "file_errors env bad = [ErrorLoading (path_str bad) e]"
    using assms(2,3,4) by (simp add: file_errors_def)
  have r: "load_documents env (fs(directory \<mapsto> before @ after)) directory
      = (concat (map (file_documents env) (before @ after)),
         concat (map (file_errors env) (before @ after)))"
    by (rule load_documents_eq) simp
  have d: "load_documents env fs directory
      = (concat (map (file_documents env) (before @ bad # after)),
         concat (map (file_errors env) (before @ bad # after)))"
    using assms(1) by (rule load_documents_eq)
  show ?thesis
    by (simp add: d r b g)
qed

theorem load_documents_skips_failing_file_witness:
  "example_fs ''kb'' = Some ([hours_txt] @ broken_pdf # [notes_upper, logo_png, archive_dir])
   \<and> is_file broken_pdf
   \<and> map_of loaders (lower (path_suffix broken_pdf)) = Some PyPDFLoader
   \<and> load text_services PyPDFLoader broken_pdf = Inl (Exception ''cannot parse'')
   \<and> fst (load_documents text_services example_fs ''kb'') =
       [\<lparr>page_content = ''Open 9 to 5'',
         metadata = [(''source'', ''kb/hours.txt''), (''file_type'', ''.txt'')]\<rparr>,
        \<lparr>page_content = ''Ask us'',
         metadata = [(''source'', ''kb/NOTES.TXT''), (''file_type'', ''.txt'')]\<rparr>]
   \<and> ErrorLoading ''kb/broken.pdf'' (Exception ''cannot parse'')
       \<in> set (snd (load_documents text_services example_fs ''kb''))"
proof -
  have s: "map_of loaders (lower (path_suffix broken_pdf)) = Some PyPDFLoader"
    by (simp add: broken_pdf_def lower_def char_lower_def loaders_def)
  have f: "is_file broken_pdf"
    by (simp add: broken_pdf_def)
  have l: "load text_services PyPDFLoader broken_pdf = Inl (Exception ''cannot parse'')"
    by (simp add: text_services_def)
  have p: "path_str broken_pdf = ''kb/broken.pdf''"
    by (simp add: broken_pdf_def)
  show ?thesis
    using load_documents_skips_failing_file [of example_fs "''kb''" "[hours_txt]" broken_pdf
        "[notes_upper, logo_png, archive_dir]" PyPDFLoader text_services
        "Exception ''cannot parse''"]
    by (simp add: example_fs_kb f s l p example_documents)
qed

text \<open>
  Claim C10. Loading from a directory that does not exist returns no documents. In an
  existing directory only the regular files whose suffix, in lower case, is one of
  \<^verbatim>\<open>.txt\<close>, \<^verbatim>\<open>.pdf\<close>, \<^verbatim>\<open>.csv\<close>, \<^verbatim>\<open>.md\<close> are considered: documents and log are those of the
  listing with every other path left out.
\<close>

theorem load_documents_supported_only:
  "(fs directory = None \<longrightarrow>
      load_documents env fs directory = ([], [DirectoryDoesNotExist directory]))
   \<and> (\<forall>paths. fs directory = Some paths \<longrightarrow>
        load_documents env fs directory
          = load_documents env (fs(directory \<mapsto> filter supported paths)) directory
        \<and> fst (load_documents env fs directory)
          = concat (map (file_documents env) (filter supported paths)))"
proof -
  have "load_documents env (fs(directory \<mapsto> filter supported paths)) directory
      = (concat (map (file_documents env) paths), concat (map (file_errors env) paths))"
    for paths
    using load_documents_eq [of "fs(directory \<mapsto> filter supported paths)" directory
        "filter supported paths" env]
    by (simp add: concat_filter_supported)
  then show ?thesis
    by (simp add: load_documents_eq concat_filter_supported) (simp add: load_documents_def)
qed

theorem load_documents_supported_only_witness:
  "example_fs ''missing'' = None
   \<and> load_documents text_services example_fs ''missing''
       = ([], [DirectoryDoesNotExist ''missing''])
   \<and> example_fs ''kb'' = Some [hours_txt, broken_pdf, notes_upper, logo_png, archive_dir]
   \<and> filter supported [hours_txt, broken_pdf, notes_upper, logo_png, archive_dir]
       = [hours_txt, broken_pdf, notes_upper]
   \<and> fst (load_documents text_services example_fs ''kb'')
       = concat (map (file_documents text_services) [hours_txt, broken_pdf, notes_upper])"
proof -
  have m: "example_fs ''missing'' = None"
    by (simp add: example_fs_def)
  have k: "example_fs ''kb'' = Some [hours_txt, broken_pdf, notes_upper, logo_png, archive_dir]"
    by (simp add: example_fs_def)
  have f: "filter supported [hours_txt, broken_pdf, notes_upper, logo_png, archive_dir]
      = [hours_txt, broken_pdf, notes_upper]"
    by (simp add: supported_def supported_extensions_def hours_txt_def broken_pdf_def
        notes_upper_def logo_png_def archive_dir_def lower_def char_lower_def)
  from load_documents_supported_only [of example_fs "''missing''" text_services] m
  have e: "load_documents text_services example_fs ''missing''
      = ([], [DirectoryDoesNotExist ''missing''])"
    by blast
  from load_documents_supported_only [of example_fs "''kb''" text_services] k
  have "fst (load_documents text_services example_fs ''kb'')
      = concat (map (file_documents text_services)
          (filter supported [hours_txt, broken_pdf, notes_upper, logo_png, archive_dir]))"
    by blast
  then have d: "fst (load_documents text_services example_fs ''kb'')
      = concat (map (file_documents text_services) [hours_txt, broken_pdf, notes_upper])"
    by (simp only: f)
  show ?thesis
    by (intro conjI m e k f d)
qed

section \<open>Seeding the sample corpus\<close>

lemma replace_text_keeps:
  "q \<in> set paths \<Longrightarrow> path_str q \<noteq> p \<Longrightarrow> q \<in> set (replace_text p t paths)"
  by (induction paths) auto

lemma replace_text_writes:
  "q \<in> set paths \<Longrightarrow> path_str q = p \<Longrightarrow> q\<lparr>file_text := t\<rparr> \<in> set (replace_text p t paths)"
  by (induction paths) auto

lemma find_Some_member: "find P xs = Some x \<Longrightarrow> x \<in> set xs \<and> P x"
  by (induction xs) (simp_all split: if_splits)

text \<open>Writing one file leaves the files at other paths as they are.\<close>

lemma write_text_keeps:
  assumes "write_text fs d f ext t = Inr fs1" and "fs d = Some paths" and "q \<in> set paths"
    and "path_str q \<noteq> joinpath d f"
  shows "\<exists>paths1. fs1 d = Some paths1 \<and> q \<in> set paths1"
proof (cases "find (\<lambda>q. path_str q = joinpath d f) paths")
  case None
  then have "fs1 = fs(d \<mapsto> paths @
      [\<lparr>path_str = joinpath d f, path_suffix = ext, is_file = True, file_text = t\<rparr>])"
    using assms(1,2) by (simp add: write_text_def Let_def)
  then show ?thesis using assms(3) by simp
next
  case (Some q0)
  then have "fs1 = fs(d \<mapsto> replace_text (joinpath d f) t paths)"
    using assms(1,2) by (simp add: write_text_def Let_def split: if_splits)
  then show ?thesis
    using replace_text_keeps [OF assms(3,4)] by simp
qed

text \<open>After a write that succeeds the directory lists the file with the text written.\<close>

lemma write_text_writes:
  assumes "write_text fs d f ext t = Inr fs1"
  shows "\<exists>paths1 q. fs1 d = Some paths1 \<and> q \<in> set paths1 \<and> path_str q = joinpath d f
           \<and> is_file q \<and> file_text q = t"
proof (cases "fs d")
  case None
  then show ?thesis using assms by (simp add: write_text_def)
next
  case (Some paths)
  note paths = this
  show ?thesis
  proof (cases "find (\<lambda>q. path_str q = joinpath d f) paths")
    case None
    define n where "n = \<lparr>path_str = joinpath d f, path_suffix = ext, is_file = True,
      file_text = t\<rparr>"
    have "fs1 = fs(d \<mapsto> paths @ [n])"
      using assms paths None by (simp add: write_text_def Let_def n_def)
    then have "fs1 d = Some (paths @ [n]) \<and> n \<in> set (paths @ [n])
        \<and> path_str n = joinpath d f \<and> is_file n \<and> file_text n = t"
      by (simp add: n_def)
    then show ?thesis by (intro exI [of _ "paths @ [n]"] exI [of _ n])
  next
    case (Some q0)
    then have q0: "q0 \<in> set paths \<and> path_str q0 = joinpath d f"
      by (rule find_Some_member)
    have f: "is_file q0"
      using assms paths Some by (simp add: write_text_def Let_def split: if_splits)
    have fs1: "fs1 = fs(d \<mapsto> replace_text (joinpath d f) t paths)"
      using assms paths Some by (simp add: write_text_def Let_def split: if_splits)
    define n where "n = q0\<lparr>file_text := t\<rparr>"
    have m: "n \<in> set (replace_text (joinpath d f) t paths)"
      using q0 by (simp add: replace_text_writes n_def)
    have "fs1 d = Some (replace_text (joinpath d f) t paths)
        \<and> n \<in> set (replace_text (joinpath d f) t paths)
        \<and> path_str n = joinpath d f \<and> is_file n \<and> file_text n = t"
      using q0 f m by (simp add: fs1 n_def)
    then show ?thesis
      by (intro exI [of _ "replace_text (joinpath d f) t paths"] exI [of _ n])
  qed
qed

lemma write_samples_Cons:
  assumes "write_samples fs d ((f, t) # items) = Inr fs2"
  shows "\<exists>fs1. write_text fs d f ''.txt'' (strip t) = Inr fs1 \<and> write_samples fs1 d items = Inr fs2"
proof (cases "write_text fs d f ''.txt'' (strip t)")
  case (Inl e)
  then show ?thesis using assms by simp
next
  case (Inr fs1)
  then show ?thesis using assms by simp
qed

lemma write_samples_keeps:
  assumes "write_samples fs d items = Inr fs2" and "fs d = Some paths" and "q \<in> set paths"
    and "\<forall>f \<in> set (map fst items). path_str q \<noteq> joinpath d f"
  shows "\<exists>paths2. fs2 d = Some paths2 \<and> q \<in> set paths2"
  using assms
proof (induction items arbitrary: fs paths)
  case Nil
  then show ?case by simp
next
  case (Cons item items)
  obtain f t where item: "item = (f, t)" by (cases item)
  obtain fs1 where w: "write_text fs d f ''.txt'' (strip t) = Inr fs1"
      and r: "write_samples fs1 d items = Inr fs2"
    using write_samples_Cons [of fs d f t items fs2] Cons.prems(1) by (auto simp only: item)
  have n: "path_str q \<noteq> joinpath d f"
    using Cons.prems(4) by (simp add: item)
  obtain paths1 where p1: "fs1 d = Some paths1" "q \<in> set paths1"
    using write_text_keeps [OF w Cons.prems(2,3) n] by blast
  have rest: "\<forall>f \<in> set (map fst items). path_str q \<noteq> joinpath d f"
    using Cons.prems(4) by simp
  show ?case
    using Cons.IH [OF r p1 rest] .
qed

text \<open>Joining as pathlib does it, on the default directory and on other spellings.\<close>

lemma joinpath_examples:
  "joinpath ''./data/knowledge_base'' ''faq.txt'' = ''data/knowledge_base/faq.txt''"
  "joinpath ''kb'' ''faq.txt'' = ''kb/faq.txt''"
  "joinpath ''kb/'' ''faq.txt'' = ''kb/faq.txt''"
  "joinpath ''/srv//kb/.'' ''faq.txt'' = ''/srv/kb/faq.txt''"
  "joinpath ''.'' ''faq.txt'' = ''faq.txt''"
  by (simp_all add: joinpath_def path_root_def path_parts_def path_string_def)

lemma join_slash_snoc:
  "join_slash (ps @ [f]) = concat (map (\<lambda>p. p @ ''/'') ps) @ f"
proof (induction ps)
  case Nil
  show ?case by simp
next
  case (Cons p ps)
  then show ?case by (cases ps) simp_all
qed

lemma joinpath_simple:
  assumes "simple_name f"
  shows "joinpath d f = path_root d @ concat (map (\<lambda>p. p @ ''/'') (path_parts d)) @ f"
  using assms by (simp add: simple_name_def joinpath_def path_string_def join_slash_snoc)

lemma joinpath_inject:
  assumes "simple_name f" and "simple_name g"
  shows "joinpath d f = joinpath d g \<longleftrightarrow> f = g"
  by (simp add: joinpath_simple [OF assms(1)] joinpath_simple [OF assms(2)])

lemma sample_names_simple: "\<forall>f \<in> set (map fst sample_content). simple_name f"
  by (simp add: sample_content_def simple_name_def path_root_def path_parts_def)

text \<open>
  When the loop over items with distinct names of one component ends, every item is in
  the directory.
\<close>

lemma write_samples_writes:
  assumes "write_samples fs d items = Inr fs2" and "distinct (map fst items)"
    and "\<forall>f \<in> set (map fst items). simple_name f"
    and "(f, t) \<in> set items"
  shows "\<exists>paths2 q. fs2 d = Some paths2 \<and> q \<in> set paths2 \<and> path_str q = joinpath d f
           \<and> is_file q \<and> file_text q = strip t"
  using assms
proof (induction items arbitrary: fs)
  case Nil
  then show ?case by simp
next
  case (Cons item items)
  obtain g u where item: "item = (g, u)" by (cases item)
  obtain fs1 where w: "write_text fs d g ''.txt'' (strip u) = Inr fs1"
      and r: "write_samples fs1 d items = Inr fs2"
    using write_samples_Cons [of fs d g u items fs2] Cons.prems(1) by (auto simp only: item)
  have dist: "distinct (map fst items)" and fresh: "g \<notin> set (map fst items)"
    using Cons.prems(2) by (simp_all add: item)
  have simple: "\<forall>f \<in> set (map fst items). simple_name f" and sg: "simple_name g"
    using Cons.prems(3) by (simp_all add: item)
  show ?case
  proof (cases "(f, t) = (g, u)")
    case True
    obtain paths1 q where q: "fs1 d = Some paths1" "q \<in> set paths1"
        "path_str q = joinpath d g" "is_file q" "file_text q = strip u"
      using write_text_writes [OF w] by blast
    have "\<forall>h \<in> set (map fst items). path_str q \<noteq> joinpath d h"
    proof
      fix h assume h: "h \<in> set (map fst items)"
      then have "simple_name h" and "h \<noteq> g"
        using simple fresh by auto
      then show "path_str q \<noteq> joinpath d h"
        using joinpath_inject [OF sg, of h d] by (simp add: q(3))
    qed
    then obtain paths2 where "fs2 d = Some paths2" "q \<in> set paths2"
      using write_samples_keeps [OF r q(1,2)] by blast
    then show ?thesis using q True by blast
  next
    case False
    then have "(f, t) \<in> set items" using Cons.prems(4) by (auto simp: item)
    then show ?thesis using Cons.IH [OF r dist simple] by blast
  qed
qed

lemma sample_names:
  "map fst sample_content
     = [''company_info.txt'', ''shipping_policy.txt'', ''return_policy.txt'', ''faq.txt'']"
  by (simp add: sample_content_def)

lemma file_documents_loaded:
  assumes "fs d = Some paths" and "q \<in> set paths"
  shows "set (file_documents env q) \<subseteq> set (fst (load_documents env fs d))"
  using assms load_documents_eq [of fs d paths env] by auto

text \<open>
  Claim C5. When loading the documents directory yields no document, and the four
  sample files can be written, \<^verbatim>\<open>build_vector_store\<close> logs the warning, writes the
  samples into the documents directory, loads the directory again and builds the index
  from the documents of that second load. The samples are the company info, the shipping
  policy, the return policy and the FAQ; each is in the directory with its stripped text,
  and what the loader makes of it is among the documents indexed.
\<close>

theorem build_seeds_sample_corpus:
  assumes "docs_dir = py_or documents_dir (knowledge_base_path s)"
    and "out_dir = py_or output_dir (vector_store_path s)"
    and "fs1 = mkdir (mkdir fs docs_dir) out_dir"
    and "fst (load_documents env fs1 docs_dir) = []"
    and "create_sample_documents fs1 docs_dir = Inr fs2"
  shows "build_vector_store env s fs documents_dir output_dir
           = index_documents env (fst (load_documents env fs2 docs_dir)) out_dir fs2
               (snd (load_documents env fs1 docs_dir) @ [NoDocumentsFound]
                  @ snd (load_documents env fs2 docs_dir))
       \<and> map fst sample_content
           = [''company_info.txt'', ''shipping_policy.txt'', ''return_policy.txt'', ''faq.txt'']
       \<and> (\<forall>(filename, sample_text) \<in> set sample_content.
             \<exists>paths2 q. fs2 docs_dir = Some paths2 \<and> q \<in> set paths2
               \<and> path_str q = joinpath docs_dir filename \<and> is_file q
               \<and> file_text q = strip sample_text
               \<and> set (file_documents env q) \<subseteq> set (fst (load_documents env fs2 docs_dir)))"
proof -
  obtain log1 where l1: "load_documents env fs1 docs_dir = ([], log1)"
    using assms(4) by (cases "load_documents env fs1 docs_dir") simp
  obtain documents2 log2 where l2: "load_documents env fs2 docs_dir = (documents2, log2)"
    by (cases "load_documents env fs2 docs_dir")
  have a: "build_vector_store env s fs documents_dir output_dir
      = index_documents env documents2 out_dir fs2 (log1 @ [NoDocumentsFound] @ log2)"
    using assms(5) l1 l2
    by (simp add: build_vector_store_def Let_def assms(1,2,3) [symmetric])
  have d: "distinct (map fst sample_content)"
    by (simp add: sample_names)
  have w: "write_samples fs1 docs_dir sample_content = Inr fs2"
    using assms(5) by (simp add: create_sample_documents_def)
  have c: "\<exists>paths2 q. fs2 docs_dir = Some paths2 \<and> q \<in> set paths2
               \<and> path_str q = joinpath docs_dir f \<and> is_file q
               \<and> file_text q = strip t
               \<and> set (file_documents env q) \<subseteq> set (fst (load_documents env fs2 docs_dir))"
    if m: "(f, t) \<in> set sample_content" for f t
  proof -
    obtain paths2 q where q: "fs2 docs_dir = Some paths2" "q \<in> set paths2"
        "path_str q = joinpath docs_dir f" "is_file q" "file_text q = strip t"
      using write_samples_writes [OF w d sample_names_simple m] by blast
    show ?thesis
      using q file_documents_loaded [of fs2 docs_dir paths2 q env] by blast
  qed
  have c': "\<forall>(filename, sample_text) \<in> set sample_content.
             \<exists>paths2 q. fs2 docs_dir = Some paths2 \<and> q \<in> set paths2
               \<and> path_str q = joinpath docs_dir filename \<and> is_file q
               \<and> file_text q = strip sample_text
               \<and> set (file_documents env q) \<subseteq> set (fst (load_documents env fs2 docs_dir))"
    using c by blast
  show ?thesis
    using a c' sample_names by (simp only: l1 l2 fst_conv snd_conv)
qed

text \<open>
  On an empty file system, with a text loader that works, the store is built from the
  four sample documents.
\<close>

lemma build_on_empty_file_system:
  "(case build_vector_store text_services default_settings Map.empty (Some ''kb'') None of
      Inl failure \<Rightarrow> False
    | Inr (vs, fs2, log) \<Rightarrow>
        persist_directory vs = ''./data/vectorstore''
        \<and> map page_content (collection vs) = map (\<lambda>(f, t). strip t) sample_content
        \<and> map metadata (collection vs) =
            [[(''source'', ''kb/company_info.txt''), (''file_type'', ''.txt'')],
             [(''source'', ''kb/shipping_policy.txt''), (''file_type'', ''.txt'')],
             [(''source'', ''kb/return_policy.txt''), (''file_type'', ''.txt'')],
             [(''source'', ''kb/faq.txt''), (''file_type'', ''.txt'')]]
        \<and> log = [NoDocumentsFound])"
  by (simp add: build_vector_store_def py_or_def default_settings_def mkdir_def
      load_documents_def create_sample_documents_def sample_content_def write_text_def
      joinpath_def path_root_def path_parts_def path_string_def index_documents_def
      text_services_def
      lower_def char_lower_def loaders_def add_metadata_def text_document_def Let_def)

theorem build_seeds_sample_corpus_witness:
  "''kb'' = py_or (Some ''kb'') (knowledge_base_path default_settings)
   \<and> ''./data/vectorstore'' = py_or None (vector_store_path default_settings)
   \<and> fst (load_documents text_services
            (mkdir (mkdir Map.empty ''kb'') ''./data/vectorstore'') ''kb'') = []
   \<and> \<not> isl (create_sample_documents
               (mkdir (mkdir Map.empty ''kb'') ''./data/vectorstore'') ''kb'')
   \<and> build_vector_store text_services default_settings Map.empty (Some ''kb'') None
       = index_documents text_services
           (fst (load_documents text_services
              (projr (create_sample_documents
                 (mkdir (mkdir Map.empty ''kb'') ''./data/vectorstore'') ''kb'')) ''kb''))
           ''./data/vectorstore''
           (projr (create_sample_documents
              (mkdir (mkdir Map.empty ''kb'') ''./data/vectorstore'') ''kb''))
           (snd (load_documents text_services
                  (mkdir (mkdir Map.empty ''kb'') ''./data/vectorstore'') ''kb'')
              @ [NoDocumentsFound]
              @ snd (load_documents text_services
                  (projr (create_sample_documents
                     (mkdir (mkdir Map.empty ''kb'') ''./data/vectorstore'') ''kb'')) ''kb''))
   \<and> (case build_vector_store text_services default_settings Map.empty (Some ''kb'') None of
         Inl failure \<Rightarrow> False
       | Inr (vs, fs2, log) \<Rightarrow>
           map page_content (collection vs) = map (\<lambda>(f, t). strip t) sample_content
           \<and> log = [NoDocumentsFound])"
proof -
  define fs1 where "fs1 = mkdir (mkdir Map.empty ''kb'') ''./data/vectorstore''"
  have d: "''kb'' = py_or (Some ''kb'') (knowledge_base_path default_settings)"
    by (simp add: py_or_def)
  have out: "''./data/vectorstore'' = py_or None (vector_store_path default_settings)"
    by (simp add: py_or_def default_settings_def)
  have z: "fst (load_documents text_services fs1 ''kb'') = []"
    by (simp add: fs1_def load_documents_def mkdir_def)
  have r: "\<not> isl (create_sample_documents fs1 ''kb'')"
    by (simp add: fs1_def create_sample_documents_def sample_content_def write_text_def
        mkdir_def joinpath_def path_root_def path_parts_def path_string_def Let_def)
  then have c: "create_sample_documents fs1 ''kb''
      = Inr (projr (create_sample_documents fs1 ''kb''))"
    by (cases "create_sample_documents fs1 ''kb''") simp_all
  have e: "(case build_vector_store text_services default_settings Map.empty (Some ''kb'') None of
         Inl failure \<Rightarrow> False
       | Inr (vs, fs2, log) \<Rightarrow>
           map page_content (collection vs) = map (\<lambda>(f, t). strip t) sample_content
           \<and> log = [NoDocumentsFound])"
    using build_on_empty_file_system by (auto split: sum.splits)
  show ?thesis
    using build_seeds_sample_corpus [OF d out fs1_def z c] d out z r e
    by (simp only: fs1_def) simp
qed

text \<open>The text written for the first sample, with the surrounding line breaks stripped.\<close>

lemma strip_company_info:
  "strip company_info_txt =
     ''Company Name: Your Company\<newline>'' @
     ''Founded: 2020\<newline>'' @
     ''Mission: To provide excellent customer service and innovative solutions.\<newline>'' @
     ''            \<newline>'' @
     ''Business Hours: Monday-Friday, 9 AM - 5 PM EST\<newline>'' @
     ''Support Email: support@yourcompany.com\<newline>'' @
     ''Phone: 1-800-555-0123\<newline>'' @
     ''            \<newline>'' @
     ''We are committed to helping our customers succeed.''"
  by (simp add: strip_def company_info_txt_def is_space_def)


end
